theory Spec2Isabelle
  imports Complex_Main
begin

section \<open>Data model\<close>

text \<open>
  The detector's post-processing (\<open>detect.py\<close>) works on numpy arrays. A two-dimensional
  float array is a list of rows; the float entries are idealised as real numbers, so
  every statement below is about exact arithmetic (the source computes in float32 and
  float64). An \<open>n \<times> 2\<close> integer array of pixel positions is a list of pairs. Exceptions
  are values of \<open>error\<close>.
\<close>

type_synonym matrix = "real list list"

datatype error = IndexError | ValueError | ZeroDivisionError

section \<open>Validity filter\<close>

text \<open>
  \<open>is_valid_poly(res, score_shape, scale)\<close>: \<open>res\<close> is the \<open>2 \<times> 4\<close> array of a restored
  polygon (row 0 the x components, row 1 the y components), \<open>score_shape\<close> is
  \<open>(rows, cols)\<close>. The loop runs over the columns of \<open>res\<close>.
\<close>

definition is_valid_poly :: "matrix \<Rightarrow> nat \<times> nat \<Rightarrow> int \<Rightarrow> bool" where
  "is_valid_poly res score_shape scale =
     (let cnt = fold (\<lambda>i cnt.
                  if res ! 0 ! i < 0 \<or> res ! 0 ! i \<ge> of_int (int (snd score_shape) * scale) \<or>
                     res ! 1 ! i < 0 \<or> res ! 1 ! i \<ge> of_int (int (fst score_shape) * scale)
                  then cnt + 1 else cnt)
                [0..<length (res ! 0)] (0::nat)
      in if cnt \<le> 1 then True else False)"




section \<open>Rotation and polygon restoration\<close>

definition Get_Rotation_Matrix :: "real \<Rightarrow> matrix" where
  "Get_Rotation_Matrix angle = [[cos angle, - sin angle], [sin angle, cos angle]]"

text \<open>\<open>np.dot\<close> on two-dimensional arrays: the matrix product.\<close>

definition dot :: "matrix \<Rightarrow> matrix \<Rightarrow> matrix" where
  "dot a b =
     map (\<lambda>row. map (\<lambda>j. sum_list (map2 (*) row (map (\<lambda>r. r ! j) b)))
                     [0..<(case b of [] \<Rightarrow> 0 | r # _ \<Rightarrow> length r)]) a"

text \<open>
  The body of the loop of \<open>restore_polys\<close> up to the validity test: the \<open>2 \<times> 4\<close> array
  \<open>res\<close> of iteration \<open>i\<close>, from the (scaled) positions, the distance channels \<open>d\<close> and the
  angle channel.
\<close>

definition restore_res :: "(int \<times> int) list \<Rightarrow> matrix \<Rightarrow> real list \<Rightarrow> nat \<Rightarrow> matrix" where
  "restore_res valid_pos d angle i =
     (let x = real_of_int (fst (valid_pos ! i));
          y = real_of_int (snd (valid_pos ! i));
          y_min = y - d ! 0 ! i;
          y_max = y + d ! 1 ! i;
          x_min = x - d ! 2 ! i;
          x_max = x + d ! 3 ! i;
          rotate_mat = Get_Rotation_Matrix (- (angle ! i));
          temp_x = map (\<lambda>v. v - x) [x_min, x_max, x_max, x_min];
          temp_y = map (\<lambda>v. v - y) [y_min, y_min, y_max, y_max];
          coordidates = [temp_x, temp_y];
          res = dot rotate_mat coordidates
      in [map (\<lambda>v. v + x) (res ! 0), map (\<lambda>v. v + y) (res ! 1)])"

text \<open>The row appended to \<open>polys\<close> for a valid \<open>res\<close>.\<close>

definition poly_row :: "matrix \<Rightarrow> real list" where
  "poly_row res = [res ! 0 ! 0, res ! 1 ! 0, res ! 0 ! 1, res ! 1 ! 1,
                   res ! 0 ! 2, res ! 1 ! 2, res ! 0 ! 3, res ! 1 ! 3]"

text \<open>
  The loop \<open>for i in range(valid_pos.shape[0])\<close>, with the accumulators \<open>polys\<close> and
  \<open>index\<close>. Reading \<open>d[k, i]\<close> or \<open>angle[i]\<close> beyond the array raises \<open>IndexError\<close>.
\<close>

fun restore_loop ::
  "(int \<times> int) list \<Rightarrow> matrix \<Rightarrow> real list \<Rightarrow> nat \<times> nat \<Rightarrow> int \<Rightarrow> nat list \<Rightarrow>
   matrix \<times> nat list \<Rightarrow> error + matrix \<times> nat list" where
  "restore_loop valid_pos d angle score_shape scale [] (polys, index) = Inr (polys, index)"
| "restore_loop valid_pos d angle score_shape scale (i # is) (polys, index) =
     (if length d < 4 \<or> list_ex (\<lambda>r. length r \<le> i) d \<or> length angle \<le> i
      then Inl IndexError
      else
        let res = restore_res valid_pos d angle i
        in if is_valid_poly res score_shape scale
           then restore_loop valid_pos d angle score_shape scale is
                  (polys @ [poly_row res], index @ [i])
           else restore_loop valid_pos d angle score_shape scale is (polys, index))"

text \<open>
  \<open>restore_polys(valid_pos, valid_geo, score_shape, scale)\<close>. The statement
  \<open>valid_pos *= scale\<close> updates the caller's array in place, so the final contents of
  \<open>valid_pos\<close> are returned together with \<open>(polys, index)\<close>.
\<close>

definition restore_polys ::
  "(int \<times> int) list \<Rightarrow> matrix \<Rightarrow> nat \<times> nat \<Rightarrow> int \<Rightarrow>
   error + (int \<times> int) list \<times> matrix \<times> nat list" where
  "restore_polys valid_pos valid_geo score_shape scale =
     (let valid_pos = map (\<lambda>(x, y). (x * scale, y * scale)) valid_pos;
          d = take 4 valid_geo
      in if length valid_geo \<le> 4 then Inl IndexError
         else
           let angle = valid_geo ! 4
           in case restore_loop valid_pos d angle score_shape scale
                     [0..<length valid_pos] ([], []) of
                Inl e \<Rightarrow> Inl e
              | Inr (polys, index) \<Rightarrow> Inr (valid_pos, polys, index))"

text \<open>
  The restoration as the specification words it: the four corners
  \<open>(x_min, y_min), (x_max, y_min), (x_max, y_max), (x_min, y_max)\<close>, each taken as an
  offset from the centre, rotated by the negated angle, moved back, and written out as
  \<open>[x1, y1, x2, y2, x3, y3, x4, y4]\<close>.
\<close>

definition rotate_vec :: "real \<Rightarrow> real \<times> real \<Rightarrow> real \<times> real" where
  "rotate_vec t p = (cos t * fst p - sin t * snd p, sin t * fst p + cos t * snd p)"

definition spec_polygon :: "real \<Rightarrow> real \<Rightarrow> real \<Rightarrow> real \<Rightarrow> real \<Rightarrow> real \<Rightarrow> real \<Rightarrow> real list" where
  "spec_polygon x y d0 d1 d2 d3 t =
     (let y_min = y - d0; y_max = y + d1; x_min = x - d2; x_max = x + d3
      in concat (map (\<lambda>(cx, cy). let q = rotate_vec (- t) (cx - x, cy - y)
                                  in [fst q + x, snd q + y])
                     [(x_min, y_min), (x_max, y_min), (x_max, y_max), (x_min, y_max)]))"

text \<open>
  The polygon of position \<open>i\<close> in those words: the centre is the position times
  \<open>scale\<close>, the distances and the angle are rows 0 to 4 of \<open>valid_geo\<close> at column \<open>i\<close>.
\<close>

definition spec_restore :: "(int \<times> int) list \<Rightarrow> matrix \<Rightarrow> int \<Rightarrow> nat \<Rightarrow> real list" where
  "spec_restore valid_pos valid_geo scale i =
     spec_polygon (real_of_int (fst (valid_pos ! i) * scale))
                  (real_of_int (snd (valid_pos ! i) * scale))
                  (valid_geo ! 0 ! i) (valid_geo ! 1 ! i) (valid_geo ! 2 ! i) (valid_geo ! 3 ! i)
                  (valid_geo ! 4 ! i)"

section \<open>Box assembly\<close>

text \<open>\<open>np.argwhere(score > score_thresh)\<close>: the selected \<open>[r, c]\<close> in row-major scan order.\<close>

definition argwhere :: "matrix \<Rightarrow> real \<Rightarrow> (nat \<times> nat) list" where
  "argwhere score thresh =
     concat (map (\<lambda>r. map (\<lambda>c. (r, c))
                          (filter (\<lambda>c. score ! r ! c > thresh) [0..<length (score ! r)]))
                 [0..<length score])"

definition shape :: "matrix \<Rightarrow> nat \<times> nat" where
  "shape m = (length m, case m of [] \<Rightarrow> 0 | r # _ \<Rightarrow> length r)"

text \<open>\<open>geo[:, xy_text[:, 0], xy_text[:, 1]]\<close>: one column of channels per selected pixel.\<close>

definition gather :: "real list list list \<Rightarrow> (nat \<times> nat) list \<Rightarrow> error + matrix" where
  "gather geo xy_text =
     (if list_ex (\<lambda>(r, c). list_ex (\<lambda>ch. length ch \<le> r \<or> length (ch ! r) \<le> c) geo) xy_text
      then Inl IndexError
      else Inr (map (\<lambda>ch. map (\<lambda>(r, c). ch ! r ! c) xy_text) geo))"

text \<open>\<open>score[xy_text[index, 0], xy_text[index, 1]]\<close>: the confidence of each kept polygon.\<close>

definition confidence :: "matrix \<Rightarrow> (nat \<times> nat) list \<Rightarrow> nat list \<Rightarrow> error + real list" where
  "confidence score xy_text index =
     (if list_ex (\<lambda>k. length xy_text \<le> k \<or>
                      length score \<le> fst (xy_text ! k) \<or>
                      length (score ! fst (xy_text ! k)) \<le> snd (xy_text ! k)) index
      then Inl IndexError
      else Inr (map (\<lambda>k. score ! fst (xy_text ! k) ! snd (xy_text ! k)) index))"

text \<open>
  The coordinates after \<open>xy_text = xy_text[np.argsort(xy_text[:, 0])]\<close>. \<open>np.argsort\<close>
  belongs to numpy and is a parameter: it maps the list of keys to a list of indices.
  The call leaves \<open>kind\<close> at its default.
\<close>

definition sorted_xy_text :: "(nat list \<Rightarrow> nat list) \<Rightarrow> (nat \<times> nat) list \<Rightarrow> error + (nat \<times> nat) list" where
  "sorted_xy_text argsort xy_text =
     (let perm = argsort (map fst xy_text)
      in if list_ex (\<lambda>i. length xy_text \<le> i) perm then Inl IndexError
         else Inr (map (\<lambda>i. xy_text ! i) perm))"

text \<open>
  What numpy promises of \<open>argsort\<close> for every \<open>kind\<close>: the result \<open>perm\<close> lists each index
  of the keys once and reads the keys in nondecreasing order. A \<^emph>\<open>stable\<close> sort also keeps
  indices of equal keys in increasing order; numpy promises that for \<open>kind='stable'\<close>
  only.
\<close>

definition sorting_permutation :: "nat list \<Rightarrow> nat list \<Rightarrow> bool" where
  "sorting_permutation ks perm =
     (sort perm = [0..<length ks] \<and> sorted (map (\<lambda>i. ks ! i) perm))"


text \<open>
  Two index sorts that keep numpy's promise: a stable one, and one that lists the
  indices of equal keys in decreasing order.
\<close>

definition argsort_stable :: "nat list \<Rightarrow> nat list" where
  "argsort_stable ks = map snd (sort_key fst (zip ks [0..<length ks]))"


text \<open>A merger that keeps every box, for evaluating the pipeline.\<close>

definition merge_keep_all :: "matrix \<Rightarrow> real \<Rightarrow> matrix" where
  "merge_keep_all boxes thres = boxes"

text \<open>
  \<open>get_boxes(score, geo, score_thresh, nms_thresh)\<close>. \<open>score\<close> has shape \<open>(1, row, col)\<close>
  and \<open>geo\<close> shape \<open>(5, row, col)\<close>. \<open>lanms.merge_quadrangle_n9\<close> is the external merger and
  a parameter. \<open>restore_polys\<close> receives a copy of the positions (\<open>.copy()\<close>), so its
  in-place scaling does not reach \<open>xy_text\<close>. Assigning a score vector whose length
  differs from the number of polygons to column 8 raises \<open>ValueError\<close>.
\<close>

definition get_boxes ::
  "(nat list \<Rightarrow> nat list) \<Rightarrow> (matrix \<Rightarrow> real \<Rightarrow> matrix) \<Rightarrow>
   real list list list \<Rightarrow> real list list list \<Rightarrow> real \<Rightarrow> real \<Rightarrow> error + matrix option" where
  "get_boxes argsort merge_quadrangle_n9 score3 geo score_thresh nms_thresh =
     (case score3 of
        [] \<Rightarrow> Inl IndexError
      | score # _ \<Rightarrow>
          (let xy_text = argwhere score score_thresh
           in if xy_text = [] then Inr None
              else
                (case sorted_xy_text argsort xy_text of
                   Inl e \<Rightarrow> Inl e
                 | Inr xy_text \<Rightarrow>
                     (let valid_pos = map (\<lambda>(r, c). (int c, int r)) xy_text
                      in (case gather geo xy_text of
                            Inl e \<Rightarrow> Inl e
                          | Inr valid_geo \<Rightarrow>
                              (case restore_polys valid_pos valid_geo (shape score) 4 of
                                 Inl e \<Rightarrow> Inl e
                               | Inr (valid_pos', polys_restored, index) \<Rightarrow>
                                   if polys_restored = [] then Inr None
                                   else
                                     (case confidence score xy_text index of
                                        Inl e \<Rightarrow> Inl e
                                      | Inr conf \<Rightarrow>
                                          if length conf \<noteq> length polys_restored
                                          then Inl ValueError
                                          else
                                            (let boxes = map2 (\<lambda>p s. p @ [s]) polys_restored conf;
                                                 boxes = merge_quadrangle_n9 boxes nms_thresh
                                             in Inr (Some (map (take 8) boxes))))))))))"

section \<open>Coordinate rescaling\<close>

text \<open>\<open>np.around\<close>: rounding to the nearest integer, ties to the even one.\<close>

definition around :: "real \<Rightarrow> real" where
  "around x =
     (let f = \<lfloor>x\<rfloor>; r = x - of_int f
      in of_int (if r < 1 / 2 then f
                 else if 1 / 2 < r then f + 1
                 else if even f then f else f + 1))"

text \<open>
  \<open>boxes[:, [0,2,4,6]] /= ratio_w; boxes[:, [1,3,5,7]] /= ratio_h\<close> on one row. Both
  statements update \<open>boxes\<close> in place.
\<close>

definition divide_row :: "real \<Rightarrow> real \<Rightarrow> real list \<Rightarrow> real list" where
  "divide_row ratio_w ratio_h row =
     map (\<lambda>(j, v). if j \<in> set [0, 2, 4, 6] then v / ratio_w
                    else if j \<in> set [1, 3, 5, 7] then v / ratio_h
                    else v)
         (zip [0..<length row] row)"

text \<open>
  \<open>adjust_ratio(boxes, ratio_w, ratio_h)\<close>. \<open>None\<close> is Python's \<open>None\<close>. The result is the
  pair of the final contents of the argument \<open>boxes\<close> and the returned value. Selecting
  column 7 of an array with fewer than 8 columns raises \<open>IndexError\<close>. numpy divides by
  a ratio 0 without raising and leaves infinite entries, which the reals do not have:
  the statements about the quotients take the ratios to be other than 0.
\<close>

definition adjust_ratio ::
  "matrix option \<Rightarrow> real \<Rightarrow> real \<Rightarrow> error + matrix option \<times> matrix option" where
  "adjust_ratio boxes ratio_w ratio_h =
     (case boxes of
        None \<Rightarrow> Inr (None, None)
      | Some bs \<Rightarrow>
          if sum_list (map length bs) = 0 then Inr (Some bs, None)
          else if list_ex (\<lambda>row. length row < 8) bs then Inl IndexError
          else
            let bs' = map (divide_row ratio_w ratio_h) bs
            in Inr (Some bs', Some (map (map around) bs')))"

section \<open>Pipeline\<close>

record image =
  height :: nat
  width :: nat
  pixels :: "real list list"

text \<open>
  \<open>resize_img(image)\<close>, the argument written \<open>img\<close> here.
  \<open>image.resize(size, Image.BILINEAR)\<close> belongs to PIL and is the parameter \<open>resize\<close>,
  taking \<open>(width, height)\<close>.
\<close>

definition resize_img ::
  "(image \<Rightarrow> nat \<times> nat \<Rightarrow> image) \<Rightarrow> image \<Rightarrow> error + image \<times> real \<times> real" where
  "resize_img resize img =
     (let new_dimensions = (126::nat, 224::nat);
          old_height = height img;
          old_width = width img;
          new_height = fst new_dimensions;
          new_width = snd new_dimensions
      in if old_height = 0 \<or> old_width = 0 then Inl ZeroDivisionError
         else
           let ratio_height = real new_height / real old_height;
               ratio_width = real new_width / real old_width;
               resized_image = resize img (new_width, new_height)
           in Inr (img, ratio_height, ratio_width))"

text \<open>
  \<open>detect(img, model, device)\<close>. The parameter \<open>model\<close> stands for the network together
  with \<open>load_pil\<close> and the conversion of its two outputs to arrays of shape
  \<open>(1, row, col)\<close> and \<open>(5, row, col)\<close>.
\<close>

definition detect ::
  "(image \<Rightarrow> nat \<times> nat \<Rightarrow> image) \<Rightarrow> (image \<Rightarrow> real list list list \<times> real list list list) \<Rightarrow>
   (nat list \<Rightarrow> nat list) \<Rightarrow> (matrix \<Rightarrow> real \<Rightarrow> matrix) \<Rightarrow> image \<Rightarrow> error + matrix option" where
  "detect resize model argsort merge_quadrangle_n9 img =
     (case resize_img resize img of
        Inl e \<Rightarrow> Inl e
      | Inr (img', ratio_h, ratio_w) \<Rightarrow>
          (let (score, geo) = model img'
           in (case get_boxes argsort merge_quadrangle_n9 score geo (9 / 10) (2 / 10) of
                 Inl e \<Rightarrow> Inl e
               | Inr boxes \<Rightarrow>
                   (case adjust_ratio boxes ratio_w ratio_h of
                      Inl e \<Rightarrow> Inl e
                    | Inr (boxes', res) \<Rightarrow> Inr res))))"

section \<open>Result lines\<close>

text \<open>\<open>int(b)\<close> on a float truncates towards zero; \<open>str\<close> of an integer is its decimal form.\<close>

definition py_int :: "real \<Rightarrow> int" where
  "py_int b = (if 0 \<le> b then \<lfloor>b\<rfloor> else \<lceil>b\<rceil>)"

fun str_nat :: "nat \<Rightarrow> string" where
  "str_nat n = (if n < 10 then [''0123456789'' ! n]
                else str_nat (n div 10) @ [''0123456789'' ! (n mod 10)])"

declare str_nat.simps [simp del]

definition str_int :: "int \<Rightarrow> string" where
  "str_int i = (if i < 0 then CHR ''-'' # str_nat (nat (- i)) else str_nat (nat i))"

fun join :: "string \<Rightarrow> string list \<Rightarrow> string" where
  "join sep [] = []"
| "join sep [s] = s"
| "join sep (s # t # ss) = s @ sep @ join sep (t # ss)"

text \<open>
  The lines \<open>detect_dataset\<close> writes for one image:
  \<open>','.join([str(int(b)) for b in box[:-1]]) + '\n'\<close> for every box of \<open>detect\<close>'s result.
\<close>

definition result_line :: "real list \<Rightarrow> string" where
  "result_line box = join '','' (map (\<lambda>b. str_int (py_int b)) (butlast box)) @ [CHR 0x0A]"

definition detect_dataset_seq :: "matrix option \<Rightarrow> string list" where
  "detect_dataset_seq boxes = (case boxes of None \<Rightarrow> [] | Some bs \<Rightarrow> map result_line bs)"

text \<open>
  The divisor the specification gives column \<open>j\<close> of a box row: \<open>ratio_w\<close> for the x
  columns 0, 2, 4, 6, \<open>ratio_h\<close> for the y columns 1, 3, 5, 7, none beyond.
\<close>

definition column_ratio :: "real \<Rightarrow> real \<Rightarrow> nat \<Rightarrow> real" where
  "column_ratio ratio_w ratio_h j =
     (if j \<in> {0, 2, 4, 6} then ratio_w else if j \<in> {1, 3, 5, 7} then ratio_h else 1)"

text \<open>
  A stand-in for PIL's resize that sets the size and keeps the pixel data, for
  evaluating the pipeline.
\<close>

definition resize_to :: "image \<Rightarrow> nat \<times> nat \<Rightarrow> image" where
  "resize_to img wh = img\<lparr>height := snd wh, width := fst wh\<rparr>"

text \<open>
  The invariant of the data model: every channel of the geometry map has the row and
  column extents of the score map.
\<close>

definition same_extents :: "real list list list \<Rightarrow> matrix \<Rightarrow> bool" where
  "same_extents geo score =
     list_all (\<lambda>ch. length ch = length score \<and>
                     list_all (\<lambda>r. length (ch ! r) = length (score ! r)) [0..<length score]) geo"

section \<open>The validity filter counts corners\<close>









section \<open>The restoration loop\<close>

lemma restore_loop_Inr:
  "restore_loop vp d angle sh sc is (polys, index) = Inr (polys', index') \<Longrightarrow>
   index' = index @ filter (\<lambda>i. is_valid_poly (restore_res vp d angle i) sh sc) is \<and>
   polys' = polys @ map (\<lambda>i. poly_row (restore_res vp d angle i))
                      (filter (\<lambda>i. is_valid_poly (restore_res vp d angle i) sh sc) is)"
proof (induction "is" arbitrary: polys index)
  case Nil
  then show ?case by simp
next
  case (Cons i "is")
  show ?case
  proof (cases "is_valid_poly (restore_res vp d angle i) sh sc")
    case True
    with Cons.prems have
      "restore_loop vp d angle sh sc is
         (polys @ [poly_row (restore_res vp d angle i)], index @ [i]) = Inr (polys', index')"
      by (simp split: if_splits)
    from Cons.IH [OF this] True show ?thesis by simp
  next
    case False
    with Cons.prems have "restore_loop vp d angle sh sc is (polys, index) = Inr (polys', index')"
      by (simp split: if_splits)
    from Cons.IH [OF this] False show ?thesis by simp
  qed
qed

lemma restore_loop_total:
  "4 \<le> length d \<Longrightarrow> \<forall>i\<in>set is. i < length angle \<and> (\<forall>r\<in>set d. i < length r) \<Longrightarrow>
   \<exists>res. restore_loop vp d angle sh sc is acc = Inr res"
proof (induction "is" arbitrary: acc)
  case Nil
  then show ?case by (cases acc) simp
next
  case (Cons i "is")
  obtain polys index where acc: "acc = (polys, index)" by (cases acc)
  have ok: "\<not> (length d < 4 \<or> list_ex (\<lambda>r. length r \<le> i) d \<or> length angle \<le> i)"
    using Cons.prems by (auto simp: list_ex_iff)
  have IH: "\<And>a. \<exists>res. restore_loop vp d angle sh sc is a = Inr res"
    using Cons.IH Cons.prems by simp
  show ?case unfolding acc using ok IH by (simp add: Let_def)
qed

lemma restore_polys_Inr:
  assumes "restore_polys valid_pos valid_geo sh sc = Inr (vp', polys, index)"
  shows "vp' = map (\<lambda>(x, y). (x * sc, y * sc)) valid_pos"
    and "index = filter (\<lambda>i. is_valid_poly (restore_res vp' (take 4 valid_geo) (valid_geo ! 4) i) sh sc)
                   [0..<length valid_pos]"
    and "polys = map (\<lambda>i. poly_row (restore_res vp' (take 4 valid_geo) (valid_geo ! 4) i)) index"
    and "4 < length valid_geo"
proof -
  let ?vp = "map (\<lambda>(x, y). (x * sc, y * sc)) valid_pos"
  from assms have len: "4 < length valid_geo"
    by (auto simp: restore_polys_def Let_def split: if_splits)
  from assms len have loop:
    "restore_loop ?vp (take 4 valid_geo) (valid_geo ! 4) sh sc [0..<length valid_pos] ([], []) =
       Inr (polys, index) \<and> vp' = ?vp"
    by (auto simp: restore_polys_def Let_def split: if_splits sum.splits)
  then show "vp' = ?vp" by simp
  from loop have l: "restore_loop ?vp (take 4 valid_geo) (valid_geo ! 4) sh sc
      [0..<length valid_pos] ([], []) = Inr (polys, index)" and v: "vp' = ?vp"
    by simp_all
  note r = restore_loop_Inr [OF l]
  from r v show "index = filter (\<lambda>i. is_valid_poly (restore_res vp' (take 4 valid_geo) (valid_geo ! 4) i) sh sc)
                   [0..<length valid_pos]"
    by simp
  from r v show "polys = map (\<lambda>i. poly_row (restore_res vp' (take 4 valid_geo) (valid_geo ! 4) i)) index"
    by simp
  show "4 < length valid_geo" by (rule len)
qed

lemma restore_polys_total:
  assumes "4 < length valid_geo" and "\<forall>r\<in>set valid_geo. length valid_pos \<le> length r"
  shows "\<exists>polys index. restore_polys valid_pos valid_geo sh sc =
           Inr (map (\<lambda>(x, y). (x * sc, y * sc)) valid_pos, polys, index)"
proof -
  let ?vp = "map (\<lambda>(x, y). (x * sc, y * sc)) valid_pos"
  have a: "valid_geo ! 4 \<in> set valid_geo" using assms(1) by simp
  have "\<forall>i\<in>set [0..<length ?vp]. i < length (valid_geo ! 4) \<and>
          (\<forall>r\<in>set (take 4 valid_geo). i < length r)"
    using assms(2) a by (fastforce dest: in_set_takeD)
  moreover have "4 \<le> length (take 4 valid_geo)" using assms(1) by simp
  ultimately obtain res where
    "restore_loop ?vp (take 4 valid_geo) (valid_geo ! 4) sh sc [0..<length ?vp] ([], []) = Inr res"
    using restore_loop_total by blast
  then show ?thesis using assms(1) by (cases res) (simp add: restore_polys_def Let_def)
qed

lemma poly_row_spec:
  "poly_row (restore_res vp d angle i) =
   spec_polygon (real_of_int (fst (vp ! i))) (real_of_int (snd (vp ! i)))
     (d ! 0 ! i) (d ! 1 ! i) (d ! 2 ! i) (d ! 3 ! i) (angle ! i)"
  by (simp add: poly_row_def restore_res_def spec_polygon_def rotate_vec_def dot_def
      Get_Rotation_Matrix_def Let_def)

lemma poly_row_spec_restore:
  assumes "i < length valid_pos"
  shows "poly_row (restore_res (map (\<lambda>(x, y). (x * sc, y * sc)) valid_pos)
                     (take 4 valid_geo) (valid_geo ! 4) i) =
         spec_restore valid_pos valid_geo sc i"
  using assms by (simp add: poly_row_spec spec_restore_def split_beta)

lemma restore_polys_example:
  "restore_polys [(1, 1)] [[1], [2], [3], [0], [0]] (3, 3) 4 =
     Inr ([(4, 4)], [[1, 3, 4, 3, 4, 6, 1, 6]], [0])"
  by (simp add: restore_polys_def restore_res_def dot_def Get_Rotation_Matrix_def
      poly_row_def is_valid_poly_def Let_def)
text \<open>
  Claim C2. When \<open>restore_polys\<close> returns, the candidate it computed for every input
  position \<open>i\<close> is the polygon of the specification: centre the scaled position,
  \<open>y_min = y - d0\<close>, \<open>y_max = y + d1\<close>, \<open>x_min = x - d2\<close>, \<open>x_max = x + d3\<close>, the four corner
  offsets rotated by the matrix of the negated angle, the centre added back, and the
  scalars in the order \<open>[x1, y1, x2, y2, x3, y3, x4, y4]\<close> of the corners top-left,
  top-right, bottom-right, bottom-left. The rows of \<open>polys\<close> are these polygons for
  the positions listed in \<open>index\<close>, which are the positions that pass the validity test.
\<close>

theorem restore_polys_computes_spec_polygon:
  assumes "restore_polys valid_pos valid_geo score_shape scale = Inr (valid_pos', polys, index)"
  shows "(\<forall>i<length valid_pos.
            poly_row (restore_res valid_pos' (take 4 valid_geo) (valid_geo ! 4) i) =
            spec_restore valid_pos valid_geo scale i) \<and>
         polys = map (spec_restore valid_pos valid_geo scale) index \<and>
         index = filter (\<lambda>i. is_valid_poly
                                (restore_res valid_pos' (take 4 valid_geo) (valid_geo ! 4) i)
                                score_shape scale) [0..<length valid_pos]"
proof -
  note r = restore_polys_Inr [OF assms]
  have a: "\<forall>i<length valid_pos.
            poly_row (restore_res valid_pos' (take 4 valid_geo) (valid_geo ! 4) i) =
            spec_restore valid_pos valid_geo scale i"
    unfolding r(1) by (simp add: poly_row_spec_restore)
  have "set index \<subseteq> {0..<length valid_pos}" using r(2) by auto
  then have b: "polys = map (spec_restore valid_pos valid_geo scale) index"
    using r(3) a by (auto simp: subset_iff)
  show ?thesis using a b r(2) by blast
qed

text \<open>
  The theorem at one position: pixel \<open>(1, 1)\<close> of a \<open>3 \<times> 3\<close> map, scale 4, distances
  \<open>1, 2, 3, 0\<close> and angle 0 give the rectangle with corners \<open>(1, 3), (4, 3), (4, 6), (1, 6)\<close>.
\<close>

theorem restore_polys_computes_spec_polygon_witness:
  "restore_polys [(1, 1)] [[1], [2], [3], [0], [0]] (3, 3) 4 =
     Inr ([(4, 4)], [[1, 3, 4, 3, 4, 6, 1, 6]], [0]) \<and>
   spec_restore [(1, 1)] [[1], [2], [3], [0], [0]] 4 0 = [1, 3, 4, 3, 4, 6, 1, 6]"
  using restore_polys_computes_spec_polygon [OF restore_polys_example] restore_polys_example
  by simp

section \<open>Indices returned by the restoration\<close>

lemma argwhere_in_bounds:
  assumes "(r, c) \<in> set (argwhere score thresh)"
  shows "r < length score \<and> c < length (score ! r)"
  using assms by (auto simp: argwhere_def)

lemma sorted_xy_text_subset:
  assumes "sorted_xy_text argsort scan = Inr xy_text"
  shows "set xy_text \<subseteq> set scan"
proof -
  let ?perm = "argsort (map fst scan)"
  from assms have a: "\<forall>i\<in>set ?perm. i < length scan" and b: "xy_text = map (\<lambda>i. scan ! i) ?perm"
    by (auto simp: sorted_xy_text_def Let_def list_ex_iff not_le split: if_splits)
  show ?thesis unfolding b using a by auto
qed


lemma argwhere_example:
  "argwhere [[0, 0, 0], [0, 1, 0], [0, 0, 0]] (9 / 10) = [(1, 1)]"
  by (simp add: argwhere_def)

lemma sorted_xy_text_example:
  "sorted_xy_text argsort_stable (argwhere [[0, 0, 0], [0, 1, 0], [0, 0, 0]] (9 / 10)) =
     Inr [(1, 1)]"
  unfolding argwhere_example
  by (simp add: sorted_xy_text_def argsort_stable_def Let_def)


section \<open>Arguments updated in place\<close>

lemma around_int [simp]: "around (of_int n) = of_int n"
  by (simp add: around_def)

lemma around_numeral [simp]: "around (numeral k) = numeral k"
  using around_int [of "numeral k"] by simp

lemma around_neg_numeral [simp]: "around (- numeral k) = - numeral k"
  using around_int [of "- numeral k"] by simp

lemma around_zero [simp]: "around 0 = 0"
  using around_int [of 0] by simp

lemma around_one [simp]: "around 1 = 1"
  using around_int [of 1] by simp

lemma adjust_ratio_example:
  "adjust_ratio (Some [[2, 4, 6, 8, 10, 12, 14, 16]]) 2 2 =
     Inr (Some [[1, 2, 3, 4, 5, 6, 7, 8]], Some [[1, 2, 3, 4, 5, 6, 7, 8]])"
proof -
  have d: "divide_row 2 2 [2, 4, 6, 8, 10, 12, 14, 16] = [1, 2, 3, 4, 5, 6, 7, 8]"
    by (simp add: divide_row_def upt_rec)
  show ?thesis by (simp add: adjust_ratio_def Let_def d)
qed

text \<open>
  Claim C8, as the code has it. \<open>restore_polys\<close> multiplies its argument \<open>valid_pos\<close> by
  \<open>scale\<close> in place, and \<open>adjust_ratio\<close> divides the coordinate columns of its argument
  \<open>boxes\<close> in place: after the call the caller's array holds the scaled positions,
  respectively the divided and not yet rounded boxes. The value \<open>adjust_ratio\<close> returns
  is a fresh, rounded array. A null or empty \<open>boxes\<close> is left as it was.
\<close>

theorem arguments_updated_in_place:
  "(restore_polys valid_pos valid_geo score_shape scale = Inr (valid_pos', polys, index) \<longrightarrow>
      valid_pos' = map (\<lambda>(x, y). (x * scale, y * scale)) valid_pos) \<and>
   (adjust_ratio boxes ratio_w ratio_h = Inr (boxes', res) \<longrightarrow>
      boxes' = (case boxes of
                  None \<Rightarrow> None
                | Some bs \<Rightarrow> if sum_list (map length bs) = 0 then Some bs
                            else Some (map (divide_row ratio_w ratio_h) bs)) \<and>
      res = (case boxes of
               None \<Rightarrow> None
             | Some bs \<Rightarrow> if sum_list (map length bs) = 0 then None
                         else Some (map (map around) (map (divide_row ratio_w ratio_h) bs))))"
proof -
  have a: "valid_pos' = map (\<lambda>(x, y). (x * scale, y * scale)) valid_pos"
    if "restore_polys valid_pos valid_geo score_shape scale = Inr (valid_pos', polys, index)"
    using restore_polys_Inr(1) [OF that] .
  have b: "boxes' = (case boxes of
                  None \<Rightarrow> None
                | Some bs \<Rightarrow> if sum_list (map length bs) = 0 then Some bs
                            else Some (map (divide_row ratio_w ratio_h) bs)) \<and>
      res = (case boxes of
               None \<Rightarrow> None
             | Some bs \<Rightarrow> if sum_list (map length bs) = 0 then None
                         else Some (map (map around) (map (divide_row ratio_w ratio_h) bs)))"
    if "adjust_ratio boxes ratio_w ratio_h = Inr (boxes', res)"
    using that by (auto simp: adjust_ratio_def Let_def split: option.splits if_splits)
  show ?thesis using a b by blast
qed

text \<open>
  The theorem at one position with scale 4 and at one box with both ratios 2.
\<close>

theorem arguments_updated_in_place_witness:
  "restore_polys [(1, 1)] [[1], [2], [3], [0], [0]] (3, 3) 4 =
     Inr ([(4, 4)], [[1, 3, 4, 3, 4, 6, 1, 6]], [0]) \<and>
   [(4, 4)] = map (\<lambda>(x, y). (x * 4, y * 4)) [(1::int, 1::int)] \<and>
   adjust_ratio (Some [[2, 4, 6, 8, 10, 12, 14, 16]]) 2 2 =
     Inr (Some [[1, 2, 3, 4, 5, 6, 7, 8]], Some [[1, 2, 3, 4, 5, 6, 7, 8]]) \<and>
   Some [[1, 2, 3, 4, 5, 6, 7, 8]] = Some (map (divide_row 2 2) [[2, 4, 6, 8, 10, 12, 14, 16]])"
proof -
  note t = arguments_updated_in_place [of "[(1, 1)]" "[[1], [2], [3], [0], [0]]" "(3, 3)" 4
      "[(4, 4)]" "[[1, 3, 4, 3, 4, 6, 1, 6]]" "[0]"
      "Some [[2, 4, 6, 8, 10, 12, 14, 16]]" 2 2
      "Some [[1, 2, 3, 4, 5, 6, 7, 8]]" "Some [[1, 2, 3, 4, 5, 6, 7, 8]]"]
  from t restore_polys_example
  have a: "[(4, 4)] = map (\<lambda>(x, y). (x * 4, y * 4)) [(1::int, 1::int)]" by blast
  from t adjust_ratio_example
  have "Some [[1, 2, 3, 4, 5, 6, 7, 8]] =
          (case Some [[2, 4, 6, 8, 10, 12, 14, 16]] of
             None \<Rightarrow> None
           | Some bs \<Rightarrow> if sum_list (map length bs) = 0 then Some bs
                       else Some (map (divide_row 2 2) bs))"
    by blast
  then have b: "Some [[1, 2, 3, 4, 5, 6, 7, 8]] =
                  Some (map (divide_row 2 2) [[2, 4, 6, 8, 10, 12, 14, 16]])"
    by simp
  show ?thesis using a b restore_polys_example adjust_ratio_example by blast
qed

text \<open>
  Claim C8 as the specification states it fails: after \<open>restore_polys\<close> the argument
  \<open>[(1, 1)]\<close> holds \<open>[(4, 4)]\<close>, and after \<open>adjust_ratio\<close> with ratios 2 the argument holds
  the halved box.
\<close>

theorem arguments_unchanged_counterexample:
  "restore_polys [(1, 1)] [[1], [2], [3], [0], [0]] (3, 3) 4 =
     Inr ([(4, 4)], [[1, 3, 4, 3, 4, 6, 1, 6]], [0]) \<and>
   [(4, 4)] \<noteq> [(1::int, 1::int)] \<and>
   adjust_ratio (Some [[2, 4, 6, 8, 10, 12, 14, 16]]) 2 2 =
     Inr (Some [[1, 2, 3, 4, 5, 6, 7, 8]], Some [[1, 2, 3, 4, 5, 6, 7, 8]]) \<and>
   Some [[1, 2, 3, 4, 5, 6, 7, 8]] \<noteq> Some [[2, 4, 6, 8, 10, 12, 14, 16 :: real]]"
  using restore_polys_example adjust_ratio_example by simp

section \<open>Rotation\<close>

lemma rotate_back_x:
  "cos t * (cos t * a + sin t * b) - sin t * (cos t * b - sin t * a) = (a::real)"
proof -
  have "cos t * (cos t * a + sin t * b) - sin t * (cos t * b - sin t * a) =
        a * (cos t * cos t) + a * (sin t * sin t)"
    by (simp add: algebra_simps)
  also have "\<dots> = a * (cos t * cos t + sin t * sin t)"
    by (simp only: distrib_left)
  also have "\<dots> = a"
    by (simp only: sin_cos_squared_add3 mult_1_right)
  finally show ?thesis .
qed

lemma rotate_back_y:
  "sin t * (cos t * a + sin t * b) + cos t * (cos t * b - sin t * a) = (b::real)"
proof -
  have "sin t * (cos t * a + sin t * b) + cos t * (cos t * b - sin t * a) =
        b * (cos t * cos t) + b * (sin t * sin t)"
    by (simp add: algebra_simps)
  also have "\<dots> = b * (cos t * cos t + sin t * sin t)"
    by (simp only: distrib_left)
  also have "\<dots> = b"
    by (simp only: sin_cos_squared_add3 mult_1_right)
  finally show ?thesis .
qed

lemma rotation_compose:
  "dot (Get_Rotation_Matrix t) (Get_Rotation_Matrix (- t)) = [[1, 0], [0, 1]]"
proof -
  have "sin t * sin t + cos t * cos t = 1"
    using sin_cos_squared_add3 [of t] by (simp add: add.commute)
  then show ?thesis by (simp add: dot_def Get_Rotation_Matrix_def)
qed

lemma rotation_undo:
  "dot (Get_Rotation_Matrix t)
     (dot (Get_Rotation_Matrix (- t)) [[a1, a2, a3, a4], [b1, b2, b3, b4]]) =
   [[a1, a2, a3, a4], [b1, b2, b3, b4]]"
  by (simp add: dot_def Get_Rotation_Matrix_def rotate_back_x rotate_back_y)

lemma restore_res_centred:
  "[map (\<lambda>v. v - real_of_int (fst (valid_pos ! i))) (restore_res valid_pos d angle i ! 0),
    map (\<lambda>v. v - real_of_int (snd (valid_pos ! i))) (restore_res valid_pos d angle i ! 1)] =
   dot (Get_Rotation_Matrix (- (angle ! i)))
     [[- (d ! 2 ! i), d ! 3 ! i, d ! 3 ! i, - (d ! 2 ! i)],
      [- (d ! 0 ! i), - (d ! 0 ! i), d ! 1 ! i, d ! 1 ! i]]"
  by (simp add: dot_def Get_Rotation_Matrix_def restore_res_def Let_def)

text \<open>
  Claim C7, over the real numbers. \<open>Get_Rotation_Matrix \<theta>\<close> is the matrix
  \<open>[[cos \<theta>, - sin \<theta>], [sin \<theta>, cos \<theta>]]\<close>; composed with the matrix of \<open>- \<theta>\<close> it is the
  identity; and applying it to the centred corner offsets that \<open>restore_polys\<close> computes
  with the angle \<open>\<theta> = angle[i]\<close> gives back the axis-aligned offsets
  \<open>(-d2, -d0), (d3, -d0), (d3, d1), (-d2, d1)\<close>. This holds for every \<open>\<theta>\<close>, so in particular
  on \<open>[-\<pi>, \<pi>]\<close>.
\<close>

theorem rotation_matrix_inverts_restoration:
  "Get_Rotation_Matrix t = [[cos t, - sin t], [sin t, cos t]] \<and>
   dot (Get_Rotation_Matrix t) (Get_Rotation_Matrix (- t)) = [[1, 0], [0, 1]] \<and>
   dot (Get_Rotation_Matrix (angle ! i))
     [map (\<lambda>v. v - real_of_int (fst (valid_pos ! i))) (restore_res valid_pos d angle i ! 0),
      map (\<lambda>v. v - real_of_int (snd (valid_pos ! i))) (restore_res valid_pos d angle i ! 1)] =
   [[- (d ! 2 ! i), d ! 3 ! i, d ! 3 ! i, - (d ! 2 ! i)],
    [- (d ! 0 ! i), - (d ! 0 ! i), d ! 1 ! i, d ! 1 ! i]]"
proof -
  have a: "Get_Rotation_Matrix t = [[cos t, - sin t], [sin t, cos t]]"
    by (simp add: Get_Rotation_Matrix_def)
  have c: "dot (Get_Rotation_Matrix (angle ! i))
     [map (\<lambda>v. v - real_of_int (fst (valid_pos ! i))) (restore_res valid_pos d angle i ! 0),
      map (\<lambda>v. v - real_of_int (snd (valid_pos ! i))) (restore_res valid_pos d angle i ! 1)] =
   [[- (d ! 2 ! i), d ! 3 ! i, d ! 3 ! i, - (d ! 2 ! i)],
    [- (d ! 0 ! i), - (d ! 0 ! i), d ! 1 ! i, d ! 1 ! i]]"
    by (simp only: restore_res_centred rotation_undo)
  show ?thesis using a rotation_compose c by blast
qed

section \<open>Rescaling\<close>



lemma length_divide_row [simp]: "length (divide_row ratio_w ratio_h row) = length row"
  by (simp add: divide_row_def)

lemma nth_divide_row:
  "j < length row \<Longrightarrow>
   divide_row ratio_w ratio_h row ! j = row ! j / column_ratio ratio_w ratio_h j"
  by (simp add: divide_row_def column_ratio_def)

lemma divide_row_one: "divide_row 1 1 row = row"
  by (rule nth_equalityI) (simp_all add: nth_divide_row column_ratio_def)


section \<open>Ordering of the selected coordinates\<close>




lemma sorting_permutation_indices:
  assumes "sorting_permutation ks perm"
  shows "set perm = {0..<length ks}" and "length perm = length ks" and "distinct perm"
proof -
  from assms have s: "sort perm = [0..<length ks]" by (simp add: sorting_permutation_def)
  have "set perm = set (sort perm)" by simp
  then show "set perm = {0..<length ks}" unfolding s by simp
  have "length perm = length (sort perm)" by simp
  then show "length perm = length ks" unfolding s by simp
  have "distinct perm = distinct (sort perm)" by simp
  then show "distinct perm" unfolding s by simp
qed








section \<open>No detections\<close>

lemma gather_Inr:
  assumes "gather geo xy_text = Inr valid_geo"
  shows "length valid_geo = length geo" and "\<forall>r\<in>set valid_geo. length r = length xy_text"
  using assms by (auto simp: gather_def split: if_splits)

lemma gather_total:
  assumes "same_extents geo score" and "set xy_text \<subseteq> set (argwhere score thresh)"
  shows "\<exists>valid_geo. gather geo xy_text = Inr valid_geo"
proof -
  have "\<not> (length ch \<le> r \<or> length (ch ! r) \<le> c)"
    if "(r, c) \<in> set xy_text" and "ch \<in> set geo" for r c ch
  proof -
    have "(r, c) \<in> set (argwhere score thresh)" using that(1) assms(2) by auto
    then have b: "r < length score \<and> c < length (score ! r)" by (rule argwhere_in_bounds)
    have "length ch = length score \<and> length (ch ! r) = length (score ! r)"
      using assms(1) that(2) b by (auto simp: same_extents_def list_all_iff)
    then show ?thesis using b by simp
  qed
  then show ?thesis by (auto simp: gather_def list_ex_iff)
qed

lemma sorted_xy_text_total:
  assumes "sorting_permutation (map fst scan) (argsort (map fst scan))"
  shows "\<exists>xy_text. sorted_xy_text argsort scan = Inr xy_text"
proof -
  have "\<forall>i\<in>set (argsort (map fst scan)). i < length scan"
    using sorting_permutation_indices(1) [OF assms] by simp
  then show ?thesis by (simp add: sorted_xy_text_def Let_def list_ex_iff not_le)
qed

lemma get_boxes_none_survives:
  assumes s: "sorted_xy_text argsort (argwhere score score_thresh) = Inr xy_text"
    and g: "gather geo xy_text = Inr valid_geo"
    and l: "length geo = 5"
    and n: "\<forall>i<length xy_text.
              \<not> is_valid_poly
                  (restore_res (map (\<lambda>(r, c). (int c * 4, int r * 4)) xy_text)
                     (take 4 valid_geo) (valid_geo ! 4) i)
                  (shape score) 4"
  shows "get_boxes argsort merge (score # rest) geo score_thresh nms_thresh = Inr None"
proof -
  let ?vp = "map (\<lambda>(r, c). (int c, int r)) xy_text"
  have sc: "map (\<lambda>(x, y). (x * 4, y * 4)) ?vp = map (\<lambda>(r, c). (int c * 4, int r * 4)) xy_text"
    by (simp add: split_beta)
  have "4 < length valid_geo" and "\<forall>r\<in>set valid_geo. length ?vp \<le> length r"
    using gather_Inr [OF g] l by simp_all
  then obtain polys index where
    r: "restore_polys ?vp valid_geo (shape score) 4 =
          Inr (map (\<lambda>(x, y). (x * 4, y * 4)) ?vp, polys, index)"
    using restore_polys_total by blast
  have "index = []"
    using restore_polys_Inr(2) [OF r] n unfolding sc by (simp add: filter_empty_conv)
  then have "polys = []" using restore_polys_Inr(3) [OF r] by simp
  then show ?thesis using s g r by (simp add: get_boxes_def Let_def)
qed

text \<open>
  Claim C5. \<open>get_boxes\<close> returns \<open>None\<close>, and no error, when no pixel of the score map
  exceeds \<open>score_thresh\<close>, and when pixels are selected (the geometry map having its 5
  channels) but no restored polygon passes the validity test; selecting and gathering
  raise no error when the index sort keeps numpy's promise and the geometry map has
  the extents of the score map. \<open>adjust_ratio\<close> returns
  \<open>None\<close> for a \<open>None\<close> and for an empty box array, so \<open>detect\<close> returns \<open>None\<close> whenever
  \<open>get_boxes\<close> does.
\<close>

theorem no_detections_propagate:
  "(argwhere score score_thresh = [] \<longrightarrow>
      get_boxes argsort merge (score # rest) geo score_thresh nms_thresh = Inr None) \<and>
   (sorted_xy_text argsort (argwhere score score_thresh) = Inr xy_text \<and>
    gather geo xy_text = Inr valid_geo \<and> length geo = 5 \<and>
    (\<forall>i<length xy_text.
       \<not> is_valid_poly
           (restore_res (map (\<lambda>(r, c). (int c * 4, int r * 4)) xy_text)
              (take 4 valid_geo) (valid_geo ! 4) i)
           (shape score) 4) \<longrightarrow>
      get_boxes argsort merge (score # rest) geo score_thresh nms_thresh = Inr None) \<and>
   (sorting_permutation (map fst (argwhere score score_thresh))
      (argsort (map fst (argwhere score score_thresh))) \<and>
    same_extents geo score \<longrightarrow>
      (\<exists>xy vg. sorted_xy_text argsort (argwhere score score_thresh) = Inr xy \<and>
                gather geo xy = Inr vg)) \<and>
   adjust_ratio None ratio_w ratio_h = Inr (None, None) \<and>
   (sum_list (map length bs) = 0 \<longrightarrow>
      adjust_ratio (Some bs) ratio_w ratio_h = Inr (Some bs, None)) \<and>
   (resize_img resize img = Inr (img', ratio_h, ratio_w) \<and> model img' = (score3, geo3) \<and>
    get_boxes argsort merge score3 geo3 (9 / 10) (2 / 10) = Inr None \<longrightarrow>
      detect resize model argsort merge img = Inr None)"
proof -
  have f: "\<exists>xy vg. sorted_xy_text argsort (argwhere score score_thresh) = Inr xy \<and>
                gather geo xy = Inr vg"
    if p: "sorting_permutation (map fst (argwhere score score_thresh))
             (argsort (map fst (argwhere score score_thresh)))"
      and x: "same_extents geo score"
  proof -
    from sorted_xy_text_total [of "argwhere score score_thresh" argsort] p obtain xy where
      s: "sorted_xy_text argsort (argwhere score score_thresh) = Inr xy" by blast
    from gather_total [OF x sorted_xy_text_subset [OF s]] obtain vg where
      "gather geo xy = Inr vg" by blast
    with s show ?thesis by blast
  qed
  have a: "argwhere score score_thresh = [] \<longrightarrow>
      get_boxes argsort merge (score # rest) geo score_thresh nms_thresh = Inr None"
    by (simp add: get_boxes_def)
  have b: "sorted_xy_text argsort (argwhere score score_thresh) = Inr xy_text \<and>
    gather geo xy_text = Inr valid_geo \<and> length geo = 5 \<and>
    (\<forall>i<length xy_text.
       \<not> is_valid_poly
           (restore_res (map (\<lambda>(r, c). (int c * 4, int r * 4)) xy_text)
              (take 4 valid_geo) (valid_geo ! 4) i)
           (shape score) 4) \<longrightarrow>
      get_boxes argsort merge (score # rest) geo score_thresh nms_thresh = Inr None"
    using get_boxes_none_survives by blast
  have c: "adjust_ratio None ratio_w ratio_h = Inr (None, None)"
    by (simp add: adjust_ratio_def)
  have d: "sum_list (map length bs) = 0 \<longrightarrow>
      adjust_ratio (Some bs) ratio_w ratio_h = Inr (Some bs, None)"
    by (simp add: adjust_ratio_def)
  have e: "resize_img resize img = Inr (img', ratio_h, ratio_w) \<and> model img' = (score3, geo3) \<and>
    get_boxes argsort merge score3 geo3 (9 / 10) (2 / 10) = Inr None \<longrightarrow>
      detect resize model argsort merge img = Inr None"
    by (simp add: detect_def adjust_ratio_def)
  show ?thesis using a b c d e f by blast
qed
text \<open>
  The theorem on \<open>1 \<times> 1\<close> maps: a score of 1/2 selects nothing; a score of 1 with all
  four distances 5 gives a polygon with every corner outside the \<open>4 \<times> 4\<close> extent.
\<close>

theorem no_detections_propagate_witness:
  "get_boxes argsort_stable merge_keep_all [[[1 / 2]]]
     [[[5]], [[5]], [[5]], [[5]], [[0]]] (9 / 10) (2 / 10) = Inr None \<and>
   get_boxes argsort_stable merge_keep_all [[[1]]]
     [[[5]], [[5]], [[5]], [[5]], [[0]]] (9 / 10) (2 / 10) = Inr None \<and>
   (\<exists>xy vg. sorted_xy_text argsort_stable (argwhere [[1]] (9 / 10)) = Inr xy \<and>
             gather [[[5]], [[5]], [[5]], [[5]], [[0]]] xy = Inr vg) \<and>
   adjust_ratio (Some []) 2 2 = Inr (Some [], None) \<and>
   detect resize_to (\<lambda>im. ([[[1]]], [[[5]], [[5]], [[5]], [[5]], [[0]]])) argsort_stable
     merge_keep_all \<lparr>height = 252, width = 448, pixels = []\<rparr> = Inr None"
proof -
  let ?G = "[[[5]], [[5]], [[5]], [[5]], [[0 :: real]]]"
  let ?img = "\<lparr>height = 252, width = 448, pixels = []\<rparr>"
  let ?model = "\<lambda>im :: image. ([[[1 :: real]]], ?G)"
  have aw1: "argwhere [[1 / 2]] (9 / 10) = []"
    by (simp add: argwhere_def)
  have aw2: "argwhere [[1]] (9 / 10) = [(0, 0)]"
    by (simp add: argwhere_def)
  have sx: "sorted_xy_text argsort_stable (argwhere [[1]] (9 / 10)) = Inr [(0, 0)]"
    unfolding aw2 by (simp add: sorted_xy_text_def argsort_stable_def Let_def)
  have g: "gather ?G [(0, 0)] = Inr [[5], [5], [5], [5], [0]]"
    by (simp add: gather_def)
  have nv: "\<forall>i<length [(0::nat, 0::nat)].
       \<not> is_valid_poly
           (restore_res (map (\<lambda>(r, c). (int c * 4, int r * 4)) [(0, 0)])
              (take 4 [[5], [5], [5], [5], [0]]) ([[5], [5], [5], [5], [0]] ! 4) i)
           (shape [[1]]) 4"
    by (simp add: restore_res_def dot_def Get_Rotation_Matrix_def is_valid_poly_def
        shape_def Let_def)
  have ri: "resize_img resize_to ?img = Inr (?img, 1 / 2, 1 / 2)"
    by (simp add: resize_img_def Let_def)
  note t1 = no_detections_propagate [where score = "[[1 / 2]]" and score_thresh = "9 / 10"
      and argsort = argsort_stable and merge = merge_keep_all and rest = "[]" and geo = ?G
      and nms_thresh = "2 / 10" and bs = "[]" and ratio_w = 2 and ratio_h = 2]
  note t2 = no_detections_propagate [where score = "[[1]]" and score_thresh = "9 / 10"
      and argsort = argsort_stable and merge = merge_keep_all and rest = "[]" and geo = ?G
      and nms_thresh = "2 / 10" and xy_text = "[(0, 0)]"
      and valid_geo = "[[5], [5], [5], [5], [0]]"
      and resize = resize_to and img = ?img and img' = ?img and ratio_h = "1 / 2"
      and ratio_w = "1 / 2" and model = ?model and ?score3.0 = "[[[1]]]" and ?geo3.0 = ?G]
  have a: "get_boxes argsort_stable merge_keep_all [[[1 / 2]]] ?G (9 / 10) (2 / 10) = Inr None"
    using t1 aw1 by blast
  have c: "adjust_ratio (Some []) 2 2 = Inr (Some [], None)"
    using t1 by simp
  have l: "length ?G = 5" by simp
  have b: "get_boxes argsort_stable merge_keep_all [[[1]]] ?G (9 / 10) (2 / 10) = Inr None"
    using t2 sx g nv l by blast
  have m: "?model ?img = ([[[1]]], ?G)" by simp
  have d: "detect resize_to ?model argsort_stable merge_keep_all ?img = Inr None"
    using t2 ri m b by blast
  have sp: "sorting_permutation (map fst (argwhere [[1]] (9 / 10)))
              (argsort_stable (map fst (argwhere [[1]] (9 / 10))))"
    unfolding aw2 by code_simp
  have se: "same_extents ?G [[1]]"
    by (simp add: same_extents_def)
  have e: "\<exists>xy vg. sorted_xy_text argsort_stable (argwhere [[1]] (9 / 10)) = Inr xy \<and>
                gather ?G xy = Inr vg"
    using t2 sp se by blast
  show ?thesis using a b c d e by blast
qed

section \<open>The pipeline on concrete inputs\<close>

lemma gather_example:
  "gather [[[0, 0, 0], [0, 1, 0], [0, 0, 0]], [[0, 0, 0], [0, 2, 0], [0, 0, 0]],
           [[0, 0, 0], [0, 3, 0], [0, 0, 0]], [[0, 0, 0], [0, 0, 0], [0, 0, 0]],
           [[0, 0, 0], [0, 0, 0], [0, 0, 0]]] [(1, 1)] =
     Inr [[1], [2], [3], [0], [0]]"
  by (simp add: gather_def)

lemma confidence_example:
  "confidence [[0, 0, 0], [0, 1, 0], [0, 0, 0]] [(1, 1)] [0] = Inr [1]"
  by (simp add: confidence_def)

lemma get_boxes_example:
  "get_boxes argsort_stable merge_keep_all [[[0, 0, 0], [0, 1, 0], [0, 0, 0]]]
     [[[0, 0, 0], [0, 1, 0], [0, 0, 0]], [[0, 0, 0], [0, 2, 0], [0, 0, 0]],
      [[0, 0, 0], [0, 3, 0], [0, 0, 0]], [[0, 0, 0], [0, 0, 0], [0, 0, 0]],
      [[0, 0, 0], [0, 0, 0], [0, 0, 0]]] (9 / 10) (2 / 10) =
     Inr (Some [[1, 3, 4, 3, 4, 6, 1, 6]])"
proof -
  have sh: "shape [[0, 0, 0], [0, 1, 0], [0, 0, 0 :: real]] = (3, 3)"
    by (simp add: shape_def)
  have vp: "map (\<lambda>(r, c). (int c, int r)) [(1::nat, 1::nat)] = [(1, 1)]"
    by simp
  have sx: "sorted_xy_text argsort_stable [(1, 1)] = Inr [(1, 1)]"
    using sorted_xy_text_example by (simp only: argwhere_example)
  show ?thesis
    unfolding get_boxes_def
    by (simp add: argwhere_example [simplified] sx [simplified]
        gather_example [simplified] sh vp restore_polys_example [simplified]
        confidence_example [simplified] merge_keep_all_def Let_def)
qed

lemma adjust_ratio_one_example:
  "adjust_ratio (Some [[1, 3, 4, 3, 4, 6, 1, 6]]) 1 1 =
     Inr (Some [[1, 3, 4, 3, 4, 6, 1, 6]], Some [[1, 3, 4, 3, 4, 6, 1, 6]])"
  by (simp add: adjust_ratio_def Let_def divide_row_one)

lemma str_nat_digit: "n < 10 \<Longrightarrow> str_nat n = [''0123456789'' ! n]"
  by (simp add: str_nat.simps)

lemma result_line_example:
  "result_line [1, 3, 4, 3, 4, 6, 1, 6] = ''1,3,4,3,4,6,1'' @ [CHR 0x0A]"
  by (simp add: result_line_def py_int_def str_int_def str_nat_digit)

text \<open>
  Claim C3 at one detection. A \<open>126 \<times> 224\<close> image (both ratios 1) whose \<open>3 \<times> 3\<close> score
  map has its only pixel above 0.9 at \<open>(1, 1)\<close>, with distances \<open>1, 2, 3, 0\<close> and angle 0
  there: \<open>detect\<close> returns the box \<open>[1, 3, 4, 3, 4, 6, 1, 6]\<close>, which already has no score
  column, and the line written for it holds seven integers; \<open>y4 = 6\<close> is missing.
\<close>

theorem result_line_drops_y4:
  "detect resize_to
     (\<lambda>im. ([[[0, 0, 0], [0, 1, 0], [0, 0, 0]]],
            [[[0, 0, 0], [0, 1, 0], [0, 0, 0]], [[0, 0, 0], [0, 2, 0], [0, 0, 0]],
             [[0, 0, 0], [0, 3, 0], [0, 0, 0]], [[0, 0, 0], [0, 0, 0], [0, 0, 0]],
             [[0, 0, 0], [0, 0, 0], [0, 0, 0]]]))
     argsort_stable merge_keep_all \<lparr>height = 126, width = 224, pixels = []\<rparr> =
     Inr (Some [[1, 3, 4, 3, 4, 6, 1, 6]]) \<and>
   detect_dataset_seq (Some [[1, 3, 4, 3, 4, 6, 1, 6]]) = [''1,3,4,3,4,6,1'' @ [CHR 0x0A]]"
proof -
  have r: "resize_img resize_to \<lparr>height = 126, width = 224, pixels = []\<rparr> =
             Inr (\<lparr>height = 126, width = 224, pixels = []\<rparr>, 1, 1)"
    by (simp add: resize_img_def Let_def)
  have a: "detect resize_to
     (\<lambda>im. ([[[0, 0, 0], [0, 1, 0], [0, 0, 0]]],
            [[[0, 0, 0], [0, 1, 0], [0, 0, 0]], [[0, 0, 0], [0, 2, 0], [0, 0, 0]],
             [[0, 0, 0], [0, 3, 0], [0, 0, 0]], [[0, 0, 0], [0, 0, 0], [0, 0, 0]],
             [[0, 0, 0], [0, 0, 0], [0, 0, 0]]]))
     argsort_stable merge_keep_all \<lparr>height = 126, width = 224, pixels = []\<rparr> =
     Inr (Some [[1, 3, 4, 3, 4, 6, 1, 6]])"
    unfolding detect_def r
    by (simp add: get_boxes_example [simplified] adjust_ratio_one_example [simplified])
  have b: "detect_dataset_seq (Some [[1, 3, 4, 3, 4, 6, 1, 6]]) =
             [''1,3,4,3,4,6,1'' @ [CHR 0x0A]]"
    by (simp only: detect_dataset_seq_def option.case list.map result_line_example)
  show ?thesis using a b by blast
qed

text \<open>
  Claim C4 at one image. For a \<open>252 \<times> 448\<close> image \<open>resize_img\<close> computes the ratios 1/2
  and returns the image it was given, not the \<open>126 \<times> 224\<close> one it resized, so \<open>detect\<close>
  hands the original to the model: a model that reports text only on a \<open>126 \<times> 224\<close>
  input finds none.
\<close>

theorem resize_img_returns_original:
  "resize_img resize_to \<lparr>height = 252, width = 448, pixels = []\<rparr> =
     Inr (\<lparr>height = 252, width = 448, pixels = []\<rparr>, 1 / 2, 1 / 2) \<and>
   resize_to \<lparr>height = 252, width = 448, pixels = []\<rparr> (224, 126) =
     \<lparr>height = 126, width = 224, pixels = []\<rparr> \<and>
   detect resize_to
     (\<lambda>im. if height im = 126 \<and> width im = 224
            then ([[[1]]], [[[0]], [[1]], [[0]], [[1]], [[0]]])
            else ([[[0]]], [[[0]], [[1]], [[0]], [[1]], [[0]]]))
     argsort_stable merge_keep_all \<lparr>height = 252, width = 448, pixels = []\<rparr> = Inr None"
proof -
  have r: "resize_img resize_to \<lparr>height = 252, width = 448, pixels = []\<rparr> =
             Inr (\<lparr>height = 252, width = 448, pixels = []\<rparr>, 1 / 2, 1 / 2)"
    by (simp add: resize_img_def Let_def)
  have z: "resize_to \<lparr>height = 252, width = 448, pixels = []\<rparr> (224, 126) =
             \<lparr>height = 126, width = 224, pixels = []\<rparr>"
    by (simp add: resize_to_def)
  have g: "get_boxes argsort_stable merge_keep_all [[[0]]]
             [[[0]], [[1]], [[0]], [[1]], [[0]]] (9 / 10) (2 / 10) = Inr None"
    by (simp add: get_boxes_def argwhere_def)
  have d: "detect resize_to
     (\<lambda>im. if height im = 126 \<and> width im = 224
            then ([[[1]]], [[[0]], [[1]], [[0]], [[1]], [[0]]])
            else ([[[0]]], [[[0]], [[1]], [[0]], [[1]], [[0]]]))
     argsort_stable merge_keep_all \<lparr>height = 252, width = 448, pixels = []\<rparr> = Inr None"
    unfolding detect_def r by (simp add: g [simplified] adjust_ratio_def)
  show ?thesis using r z d by blast
qed

end
